theory Spec2Isabelle
  imports Main "HOL-Library.AList"
begin

section \<open>The sparse data store of the grid sheet (DataFrame.js)\<close>

text \<open>
  The development embeds the class \<^verbatim>\<open>DataFrame\<close> (a Frame that stores a value at each of
  its Points) and states the properties of its read, write, bulk load, bulk extract and
  bounds derivation operations.

  Conventions of the embedding:
  \<^item> a JavaScript exception is a value \<open>Inl e\<close>; a method that mutates the DataFrame
    returns the DataFrame it leaves behind next to its result, also when it throws;
  \<^item> coordinates are integers (the data model of Point), rendered in decimal; the
    rounding of doubles beyond \<open>2^53\<close> and the exponent notation beyond \<open>10^21\<close> are
    outside the model;
  \<^item> the number of arguments that the engine accepts in one call is a parameter
    (\<open>maxArgs\<close>) of the operations that spread an array into a call;
  \<^item> the registered callback is opaque: the model records each invocation (its argument
    and the store it can observe at that moment) and assumes that the callback neither
    throws nor writes to the DataFrame.
\<close>

subsection \<open>Values, numbers and errors\<close>

text \<open>A stored value: \<^verbatim>\<open>undefined\<close>, \<^verbatim>\<open>null\<close>, or any other (opaque) value.\<close>

datatype 'a jsval = Undefined | Null | Val 'a

text \<open>The numbers that \<^verbatim>\<open>parseInt\<close>, \<^verbatim>\<open>Math.min\<close> and \<^verbatim>\<open>Math.max\<close> can produce.\<close>

datatype jsnum = NaN | NegInf | Fin int | PosInf

text \<open>One constructor for each \<^verbatim>\<open>throw\<close> of DataFrame.js, one for the TypeError of
  reading \<^verbatim>\<open>.length\<close> of \<^verbatim>\<open>undefined\<close>, and one for the RangeError of a call that
  spreads too long an array into its arguments.\<close>

datatype err =
    InvalidLocation        \<comment> \<open>"Invalid Point or Coordinate"\<close>
  | OutsideDataFrame       \<comment> \<open>"... outside of DataFrame"\<close>
  | OriginNotContained     \<comment> \<open>"... not contained in this DataFrame"\<close>
  | DataOutsideBounds      \<comment> \<open>"Incoming data runs outside bounds of current DataFrame"\<close>
  | FrameNotContained      \<comment> \<open>"Frame is not contained within DataFrame!"\<close>
  | PassedFrameNotContained \<comment> \<open>"Passed Frame is not contained within DataFrame!"\<close>
  | TypeError              \<comment> \<open>\<^verbatim>\<open>data[0].length\<close> on an empty array\<close>
  | RangeError             \<comment> \<open>a call with more arguments than the engine accepts\<close>

subsection \<open>Point and Frame\<close>

text \<open>
  Modelled from the spec: Point.js and Frame.js are not among the sources. A Point is a
  pair of coordinates; a Frame is an origin and a corner. The spec introduces the rejection
  of a corner below the origin as a design choice of its own and notes that the existing
  construction may not validate, and that the original \<^verbatim>\<open>minFrame\<close> of an empty store
  silently produces a nonsensical Frame; so \<^verbatim>\<open>new Frame(origin, corner)\<close> is plain record
  construction here, with no check that the corner is not below the origin.
\<close>

datatype 'n point = Point (px: 'n) (py: 'n)

record 'n frame =
  origin :: "'n point"
  corner :: "'n point"

text \<open>A location argument: an object with \<^verbatim>\<open>isPoint\<close>, or an array of numbers.\<close>

datatype location = PointLoc "int point" | CoordLoc "int list"

text \<open>Modelled from the spec: \<^verbatim>\<open>isCoordinate\<close> of Point.js, true of a two-element
  coordinate pair.\<close>

definition isCoordinate :: "int list \<Rightarrow> bool" where
  "isCoordinate xs \<longleftrightarrow> length xs = 2"

text \<open>Modelled from the spec: \<^verbatim>\<open>new Point(location)\<close>, from a Point or a coordinate pair.\<close>

fun newPoint :: "location \<Rightarrow> int point option" where
  "newPoint (PointLoc p) = Some p"
| "newPoint (CoordLoc [a, b]) = Some (Point a b)"
| "newPoint (CoordLoc _) = None"

text \<open>
  Modelled from the spec: \<^verbatim>\<open>Frame.contains\<close>. A Frame contains a Point iff the Point's
  coordinates fall within origin and corner on both axes; a coordinate pair is an alias
  for a Point; a Frame is contained iff its origin and its corner are. The call returns a
  boolean and does not throw, so a target that is none of these is not contained.
\<close>

definition inside :: "(int, 'z) frame_scheme \<Rightarrow> int \<Rightarrow> int \<Rightarrow> bool" where
  "inside f a b \<longleftrightarrow>
     px (origin f) \<le> a \<and> a \<le> px (corner f) \<and> py (origin f) \<le> b \<and> b \<le> py (corner f)"

fun containsLoc :: "(int, 'z) frame_scheme \<Rightarrow> location \<Rightarrow> bool" where
  "containsLoc f (PointLoc p) = inside f (px p) (py p)"
| "containsLoc f (CoordLoc [a, b]) = inside f a b"
| "containsLoc f (CoordLoc _) = False"

definition containsFrame :: "(int, 'z) frame_scheme \<Rightarrow> (int, 'y) frame_scheme \<Rightarrow> bool" where
  "containsFrame f g \<longleftrightarrow> containsLoc f (PointLoc (origin g)) \<and> containsLoc f (PointLoc (corner g))"

text \<open>Modelled from the spec: \<open>width = corner.x - origin.x + 1\<close>,
  \<open>height = corner.y - origin.y + 1\<close>, \<open>area = width * height\<close>.\<close>

definition area :: "(int, 'z) frame_scheme \<Rightarrow> int" where
  "area f = (px (corner f) - px (origin f) + 1) * (py (corner f) - py (origin f) + 1)"

text \<open>
  Modelled from the spec: the row-major enumerations of Frame.js. Rows ascend in \<open>y\<close>; within
  a row the columns ascend in \<open>x\<close>. \<^verbatim>\<open>forEachCoordinateRow\<close> visits \<open>coordinateRows\<close>, each
  coordinate a two-element array \<open>[x, y]\<close>; \<^verbatim>\<open>points\<close> is the flat sequence of Points.
\<close>

definition coordinateRows :: "(int, 'z) frame_scheme \<Rightarrow> int list list list" where
  "coordinateRows f =
     map (\<lambda>b. map (\<lambda>a. [a, b]) [px (origin f) .. px (corner f)]) [py (origin f) .. py (corner f)]"

definition points :: "(int, 'z) frame_scheme \<Rightarrow> int point list" where
  "points f =
     concat (map (\<lambda>b. map (\<lambda>a. Point a b) [px (origin f) .. px (corner f)])
                 [py (origin f) .. py (corner f)])"

subsection \<open>String keys\<close>

text \<open>\<^verbatim>\<open>Number.prototype.toString\<close> on an integer: decimal digits, a leading minus sign
  for a negative number.\<close>

definition digitChar :: "nat \<Rightarrow> char" where
  "digitChar d = ''0123456789'' ! d"

fun natToString :: "nat \<Rightarrow> string" where
  "natToString n =
     (if n < 10 then [digitChar n] else natToString (n div 10) @ [digitChar (n mod 10)])"

definition numToString :: "int \<Rightarrow> string" where
  "numToString i = (if i < 0 then CHR ''-'' # natToString (nat (- i)) else natToString (nat i))"

text \<open>The template literal \<^verbatim>\<open>`${x},${y}`\<close>.\<close>

definition pointKey :: "int \<Rightarrow> int \<Rightarrow> string" where
  "pointKey a b = numToString a @ '','' @ numToString b"

text \<open>\<^verbatim>\<open>Array.prototype.toString\<close>: the elements' strings joined by commas.\<close>

fun joinWith :: "string \<Rightarrow> string list \<Rightarrow> string" where
  "joinWith sep [] = []"
| "joinWith sep [s] = s"
| "joinWith sep (s # t # ss) = s @ sep @ joinWith sep (t # ss)"

definition arrayToString :: "int list \<Rightarrow> string" where
  "arrayToString xs = joinWith '','' (map numToString xs)"

subsection \<open>The DataFrame\<close>

text \<open>What the callback was called with: a location (\<^verbatim>\<open>putAt\<close>) or a Frame
  (\<^verbatim>\<open>loadFromArray\<close>).\<close>

datatype arg = LocationArg location | FrameArg "int frame"

text \<open>
  \<^verbatim>\<open>class DataFrame extends Frame\<close>: the fields of the Frame, the store (a JavaScript
  object with string keys, kept in insertion order as \<^verbatim>\<open>Object.keys\<close> lists them), and the
  callback. \<open>callback\<close> tells whether a callback is registered (it is \<^verbatim>\<open>null\<close> otherwise);
  \<open>notified\<close> is the history of its invocations, each with the argument passed and the
  store as it was at that moment.
\<close>

record 'a dataframe = "int frame" +
  store :: "(string \<times> 'a jsval) list"
  callback :: bool
  notified :: "(arg \<times> (string \<times> 'a jsval) list) list"

text \<open>\<^verbatim>\<open>this.store[key]\<close>: the value under the key, \<^verbatim>\<open>undefined\<close> when there is none.\<close>

definition lookup :: "(string \<times> 'a jsval) list \<Rightarrow> string \<Rightarrow> 'a jsval" where
  "lookup st key = (case map_of st key of None \<Rightarrow> Undefined | Some v \<Rightarrow> v)"

text \<open>The write of \<^verbatim>\<open>putAt\<close>: \<^verbatim>\<open>delete this.store[key]\<close> for \<^verbatim>\<open>undefined\<close>,
  \<^verbatim>\<open>this.store[key] = value\<close> otherwise.\<close>

definition writeStore :: "string \<Rightarrow> 'a jsval \<Rightarrow> (string \<times> 'a jsval) list \<Rightarrow> (string \<times> 'a jsval) list" where
  "writeStore key val st = (if val = Undefined then AList.delete key st else AList.update key val st)"

definition putAt :: "location \<Rightarrow> 'a jsval \<Rightarrow> bool \<Rightarrow> 'a dataframe \<Rightarrow> (err + unit) \<times> 'a dataframe" where
  "putAt location val notify df =
     (case (case location of
              PointLoc p \<Rightarrow> Some (pointKey (px p) (py p))
            | CoordLoc xs \<Rightarrow> if isCoordinate xs then Some (arrayToString xs) else None) of
        None \<Rightarrow> (Inl InvalidLocation, df)
      | Some key \<Rightarrow>
          (let df1 = df\<lparr>store := writeStore key val (store df)\<rparr>
           in (Inr (),
               if notify \<and> callback df1
               then df1\<lparr>notified := notified df1 @ [(LocationArg location, store df1)]\<rparr>
               else df1)))"

definition getAt :: "location \<Rightarrow> 'a dataframe \<Rightarrow> err + 'a jsval" where
  "getAt location df =
     (case location of
        CoordLoc xs \<Rightarrow>
          if isCoordinate xs then
            (if \<not> containsLoc df location then Inl OutsideDataFrame
             else Inr (lookup (store df) (arrayToString xs)))
          else Inl InvalidLocation
      | PointLoc p \<Rightarrow>
          if \<not> containsLoc df location then Inl OutsideDataFrame
          else Inr (lookup (store df) (pointKey (px p) (py p))))"

text \<open>\<^verbatim>\<open>Array.prototype.forEach\<close> with the element and its index, over a body that can
  throw: the loop stops at the first exception, with the state as the body left it.\<close>

fun forEachFrom :: "nat \<Rightarrow> ('b \<Rightarrow> nat \<Rightarrow> 's \<Rightarrow> (err + unit) \<times> 's) \<Rightarrow> 'b list \<Rightarrow> 's \<Rightarrow> (err + unit) \<times> 's" where
  "forEachFrom i f [] s = (Inr (), s)"
| "forEachFrom i f (a # as) s =
     (case f a i s of
        (Inl e, s') \<Rightarrow> (Inl e, s')
      | (Inr u, s') \<Rightarrow> forEachFrom (Suc i) f as s')"

definition forEach :: "('b \<Rightarrow> nat \<Rightarrow> 's \<Rightarrow> (err + unit) \<times> 's) \<Rightarrow> 'b list \<Rightarrow> 's \<Rightarrow> (err + unit) \<times> 's" where
  "forEach f xs s = forEachFrom 0 f xs s"

definition loadFromArray :: "'a jsval list list \<Rightarrow> location \<Rightarrow> 'a dataframe \<Rightarrow> (err + unit) \<times> 'a dataframe" where
  "loadFromArray data origin0 df =
     (if \<not> containsLoc df origin0 then (Inl OriginNotContained, df)
      else case newPoint origin0 of
        None \<Rightarrow> (Inl InvalidLocation, df)
      | Some orig \<Rightarrow>
         (case data of
            [] \<Rightarrow> (Inl TypeError, df)
          | row0 # rest \<Rightarrow>
             (let rowMax = int (length data) - 1;
                  colMax = int (length row0) - 1;
                  corn = Point (colMax + px orig) (rowMax + py orig);
                  comparisonFrame = \<lparr>origin = orig, corner = corn\<rparr>
              in if \<not> containsFrame df comparisonFrame then (Inl DataOutsideBounds, df)
                 else
                  (case forEach (\<lambda>row y. forEach (\<lambda>val x.
                           putAt (CoordLoc [int x + px (origin comparisonFrame),
                                            int y + py (origin comparisonFrame)]) val False) row)
                         data df of
                     (Inl e, df1) \<Rightarrow> (Inl e, df1)
                   | (Inr u, df1) \<Rightarrow>
                       (Inr (),
                        if callback df1
                        then df1\<lparr>notified := notified df1 @ [(FrameArg comparisonFrame, store df1)]\<rparr>
                        else df1)))))"

text \<open>\<^verbatim>\<open>Array.prototype.map\<close> over a body that can throw.\<close>

fun mapE :: "('b \<Rightarrow> err + 'c) \<Rightarrow> 'b list \<Rightarrow> err + 'c list" where
  "mapE f [] = Inr []"
| "mapE f (a # as) =
     (case f a of
        Inl e \<Rightarrow> Inl e
      | Inr b \<Rightarrow> (case mapE f as of Inl e \<Rightarrow> Inl e | Inr bs \<Rightarrow> Inr (b # bs)))"

definition getDataArrayForFrame :: "(int, 'z) frame_scheme \<Rightarrow> 'a dataframe \<Rightarrow> err + 'a jsval list list" where
  "getDataArrayForFrame aFrame df =
     (if \<not> containsFrame df aFrame then Inl FrameNotContained
      else mapE (\<lambda>row. mapE (\<lambda>val. getAt (CoordLoc val) df) row) (coordinateRows aFrame))"

text \<open>\<^verbatim>\<open>Object.keys(this.store)\<close>.\<close>

definition objectKeys :: "(string \<times> 'a jsval) list \<Rightarrow> string list" where
  "objectKeys st = map fst st"

definition isFull :: "'a dataframe \<Rightarrow> bool" where
  "isFull df \<longleftrightarrow> area df = int (length (objectKeys (store df)))"

subsection \<open>Deriving the bounds of the stored keys\<close>

text \<open>\<^verbatim>\<open>String.prototype.split(",")\<close>: the pieces between the separators; the empty
  string splits into one empty piece.\<close>

fun splitOn :: "char \<Rightarrow> string \<Rightarrow> string list" where
  "splitOn sep [] = [[]]"
| "splitOn sep (c # cs) =
     (if c = sep then [] # splitOn sep cs
      else (case splitOn sep cs of w # ws \<Rightarrow> (c # w) # ws | [] \<Rightarrow> [[c]]))"

text \<open>
  \<^verbatim>\<open>parseInt\<close> with no radix: leading white space (the ASCII white space characters
  here) is skipped, then an optional sign, then an optional \<^verbatim>\<open>0x\<close> prefix that selects
  radix 16; the longest prefix of digits of the radix is the value, and \<^verbatim>\<open>NaN\<close> is the
  result when there is no digit.
\<close>

definition isWhiteSpace :: "char \<Rightarrow> bool" where
  "isWhiteSpace c \<longleftrightarrow> c \<in> set [CHR 0x09, CHR 0x0A, CHR 0x0B, CHR 0x0C, CHR 0x0D, CHR '' '']"

definition digitValue :: "char \<Rightarrow> nat option" where
  "digitValue c =
     (let k = (of_char c :: nat)
      in if 48 \<le> k \<and> k \<le> 57 then Some (k - 48)
         else if 97 \<le> k \<and> k \<le> 102 then Some (k - 87)
         else if 65 \<le> k \<and> k \<le> 70 then Some (k - 55)
         else None)"

definition isDigitIn :: "nat \<Rightarrow> char \<Rightarrow> bool" where
  "isDigitIn radix c = (case digitValue c of None \<Rightarrow> False | Some d \<Rightarrow> d < radix)"

definition digitsValue :: "nat \<Rightarrow> string \<Rightarrow> nat" where
  "digitsValue radix ds =
     foldl (\<lambda>acc c. case digitValue c of None \<Rightarrow> acc | Some d \<Rightarrow> acc * radix + d) 0 ds"

definition parseInt :: "string \<Rightarrow> jsnum" where
  "parseInt s =
     (let s1 = dropWhile isWhiteSpace s;
          negative = (take 1 s1 = ''-'');
          s2 = (if take 1 s1 = ''-'' \<or> take 1 s1 = ''+'' then drop 1 s1 else s1);
          hex = (take 2 s2 = ''0x'' \<or> take 2 s2 = ''0X'');
          radix = (if hex then 16 else 10);
          s3 = (if hex then drop 2 s2 else s2);
          ds = takeWhile (isDigitIn radix) s3
      in if ds = [] then NaN
         else Fin ((if negative then - 1 else 1) * int (digitsValue radix ds)))"

text \<open>The minimum and the maximum of two numbers as \<^verbatim>\<open>Math.min\<close> and \<^verbatim>\<open>Math.max\<close> take
  them: \<^verbatim>\<open>NaN\<close> if either is.\<close>

fun numMin :: "jsnum \<Rightarrow> jsnum \<Rightarrow> jsnum" where
  "numMin NaN b = NaN"
| "numMin a NaN = NaN"
| "numMin NegInf b = NegInf"
| "numMin a NegInf = NegInf"
| "numMin PosInf b = b"
| "numMin a PosInf = a"
| "numMin (Fin a) (Fin b) = Fin (min a b)"

fun numMax :: "jsnum \<Rightarrow> jsnum \<Rightarrow> jsnum" where
  "numMax NaN b = NaN"
| "numMax a NaN = NaN"
| "numMax PosInf b = PosInf"
| "numMax a PosInf = PosInf"
| "numMax NegInf b = b"
| "numMax a NegInf = a"
| "numMax (Fin a) (Fin b) = Fin (max a b)"

text \<open>
  \<^verbatim>\<open>Math.min(...xs)\<close> and \<^verbatim>\<open>Math.max(...xs)\<close>. The spread passes one argument for each
  element of the array, and an engine accepts only so many arguments in a call: beyond
  its bound the call throws a RangeError (the bound is fixed at 65536 in JavaScriptCore and
  follows from the stack size, in the order of \<open>10^5\<close>, in V8). The bound is the parameter
  \<open>maxArgs\<close>. Within it the result is \<^verbatim>\<open>NaN\<close> if any argument is, and \<^verbatim>\<open>Infinity\<close>
  (for the minimum) or \<^verbatim>\<open>-Infinity\<close> (for the maximum) when there is no argument.
\<close>

definition mathMin :: "nat \<Rightarrow> jsnum list \<Rightarrow> err + jsnum" where
  "mathMin maxArgs xs =
     (if maxArgs < length xs then Inl RangeError else Inr (foldl numMin PosInf xs))"

definition mathMax :: "nat \<Rightarrow> jsnum list \<Rightarrow> err + jsnum" where
  "mathMax maxArgs xs =
     (if maxArgs < length xs then Inl RangeError else Inr (foldl numMax NegInf xs))"

text \<open>\<^verbatim>\<open>coord[i]\<close> as an argument of \<^verbatim>\<open>Math.min\<close> or \<^verbatim>\<open>Math.max\<close>: an index out of range
  reads \<^verbatim>\<open>undefined\<close>, which these functions convert to \<^verbatim>\<open>NaN\<close>.\<close>

definition coordAt :: "jsnum list \<Rightarrow> nat \<Rightarrow> jsnum" where
  "coordAt coord i = (if i < length coord then coord ! i else NaN)"

definition keyCoords :: "(string \<times> 'a jsval) list \<Rightarrow> jsnum list list" where
  "keyCoords st = map (\<lambda>keyString. map parseInt (splitOn CHR '','' keyString)) (objectKeys st)"

text \<open>The getter \<^verbatim>\<open>minFrame\<close>: the four calls are evaluated in the order of the source, and
  the first that throws ends the getter.\<close>

definition minFrame :: "nat \<Rightarrow> 'a dataframe \<Rightarrow> err + jsnum frame" where
  "minFrame maxArgs df =
     (let xValues = map (\<lambda>coord. coordAt coord 0) (keyCoords (store df));
          yValues = map (\<lambda>coord. coordAt coord 1) (keyCoords (store df))
      in case mathMin maxArgs xValues of Inl e \<Rightarrow> Inl e | Inr originX \<Rightarrow>
        (case mathMin maxArgs yValues of Inl e \<Rightarrow> Inl e | Inr originY \<Rightarrow>
          (case mathMax maxArgs xValues of Inl e \<Rightarrow> Inl e | Inr cornerX \<Rightarrow>
            (case mathMax maxArgs yValues of Inl e \<Rightarrow> Inl e | Inr cornerY \<Rightarrow>
               Inr \<lparr>origin = Point originX originY, corner = Point cornerX cornerY\<rparr>))))"

definition minFrameFromOrigin :: "nat \<Rightarrow> 'a dataframe \<Rightarrow> err + jsnum frame" where
  "minFrameFromOrigin maxArgs df =
     (case minFrame maxArgs df of
        Inl e \<Rightarrow> Inl e
      | Inr mf \<Rightarrow>
          Inr \<lparr>origin = Point (Fin (px (origin df))) (Fin (py (origin df))),
               corner = Point (px (corner mf)) (py (corner mf))\<rparr>)"

subsection \<open>The DataFrame of the grid sheet (GridSheet.js)\<close>

text \<open>
  Modelled from the spec: \<^verbatim>\<open>mapEachPointRow\<close> of Frame.js, the row-major traversal that
  produces a transformed row-grouped sequence, each row given to the transform as its
  sequence of Points.
\<close>

definition mapEachPointRow :: "(int point list \<Rightarrow> 'b) \<Rightarrow> (int, 'z) frame_scheme \<Rightarrow> 'b list" where
  "mapEachPointRow f fr =
     map (\<lambda>b. f (map (\<lambda>a. Point a b) [px (origin fr) .. px (corner fr)]))
         [py (origin fr) .. py (corner fr)]"

text \<open>
  The constructor of the grid sheet element: \<^verbatim>\<open>new DataFrame([0,0], [1000,1000])\<close> (an
  empty store, no callback), the initial data \<^verbatim>\<open>`${point.x}, ${point.y}`\<close> for every Point,
  and \<^verbatim>\<open>loadFromArray(initialData)\<close> with the default origin \<open>[0, 0]\<close>. The callback is
  registered only after the load.
\<close>

definition newDataFrame :: "string dataframe" where
  "newDataFrame =
     \<lparr>origin = Point 0 0, corner = Point 1000 1000, store = [], callback = False, notified = []\<rparr>"

definition initialData :: "string jsval list list" where
  "initialData =
     mapEachPointRow
       (\<lambda>row. map (\<lambda>point. Val (numToString (px point) @ '', '' @ numToString (py point))) row)
       newDataFrame"

definition gridSheetDataFrame :: "string dataframe" where
  "gridSheetDataFrame = snd (loadFromArray initialData (CoordLoc [0, 0]) newDataFrame)"

subsection \<open>Completeness of a region\<close>

text \<open>\<^verbatim>\<open>v == undefined\<close>, the loose comparison: true of \<^verbatim>\<open>undefined\<close> and of \<^verbatim>\<open>null\<close>.\<close>

definition looseEqUndefined :: "'a jsval \<Rightarrow> bool" where
  "looseEqUndefined v \<longleftrightarrow> v = Undefined \<or> v = Null"

fun completeLoop :: "'a dataframe \<Rightarrow> int point list \<Rightarrow> err + bool" where
  "completeLoop df [] = Inr True"
| "completeLoop df (p # ps) =
     (case getAt (PointLoc p) df of
        Inl e \<Rightarrow> Inl e
      | Inr v \<Rightarrow> if looseEqUndefined v then Inr False else completeLoop df ps)"

definition hasCompleteDataForFrame :: "(int, 'z) frame_scheme \<Rightarrow> 'a dataframe \<Rightarrow> err + bool" where
  "hasCompleteDataForFrame aFrame df =
     (if \<not> containsFrame df aFrame then Inl PassedFrameNotContained
      else completeLoop df (points aFrame))"

subsection \<open>Auxiliary notions of the proofs\<close>

text \<open>The characters that \<open>natToString\<close> produces.\<close>

definition decimalChar :: "char \<Rightarrow> bool" where
  "decimalChar c \<longleftrightarrow> c \<in> set ''0123456789''"

text \<open>The store after the inner loop of \<^verbatim>\<open>loadFromArray\<close> has written the cells of one row
  from column index \<open>i\<close> on, and after the outer loop has written the rows from row index
  \<open>i\<close> on; both iterations are shown to compute exactly these.\<close>

fun writeRow :: "int \<Rightarrow> int \<Rightarrow> nat \<Rightarrow> 'a jsval list \<Rightarrow> (string \<times> 'a jsval) list \<Rightarrow> (string \<times> 'a jsval) list" where
  "writeRow ox b i [] st = st"
| "writeRow ox b i (v # vs) st = writeRow ox b (Suc i) vs (writeStore (pointKey (int i + ox) b) v st)"

fun writeRows :: "int \<Rightarrow> int \<Rightarrow> nat \<Rightarrow> 'a jsval list list \<Rightarrow> (string \<times> 'a jsval) list \<Rightarrow> (string \<times> 'a jsval) list" where
  "writeRows ox oy i [] st = st"
| "writeRows ox oy i (row # rows) st = writeRows ox oy (Suc i) rows (writeRow ox (int i + oy) 0 row st)"

section \<open>Properties\<close>

subsection \<open>Keys: decimal rendering is reversible\<close>

declare natToString.simps [simp del]

lemma digitChar_decimal: "d < 10 \<Longrightarrow> decimalChar (digitChar d)"
  unfolding decimalChar_def digitChar_def
  by (auto simp add: less_Suc_eq numeral_eq_Suc nth_Cons')

lemma digitValue_digitChar: "d < 10 \<Longrightarrow> digitValue (digitChar d) = Some d"
proof -
  have "\<forall>d \<in> set [0..<10]. digitValue (digitChar d) = Some d"
    by (simp add: upt_conv_Cons digitChar_def digitValue_def)
  then show "d < 10 \<Longrightarrow> digitValue (digitChar d) = Some d" by simp
qed

lemma decimalChar_cases:
  "decimalChar c \<Longrightarrow> \<exists>d<10. c = digitChar d"
proof -
  assume "decimalChar c"
  then have "c \<in> set (map digitChar [0..<10])"
    by (simp add: decimalChar_def digitChar_def upt_conv_Cons)
  then show ?thesis by auto
qed

lemma natToString_decimal: "\<forall>c \<in> set (natToString n). decimalChar c"
proof (induction n rule: natToString.induct)
  case (1 n)
  show ?case
  proof (cases "n < 10")
    case True
    then show ?thesis by (simp add: natToString.simps [of n] digitChar_decimal)
  next
    case False
    with 1 show ?thesis by (simp add: natToString.simps [of n] digitChar_decimal)
  qed
qed

lemma natToString_nonempty: "natToString n \<noteq> []"
  by (simp add: natToString.simps [of n])

lemma digitsValue_snoc:
  "digitsValue r (ds @ [c]) = (case digitValue c of None \<Rightarrow> digitsValue r ds | Some d \<Rightarrow> digitsValue r ds * r + d)"
  by (simp add: digitsValue_def split: option.split)

lemma digitsValue_natToString: "digitsValue 10 (natToString n) = n"
proof (induction n rule: natToString.induct)
  case (1 n)
  show ?case
  proof (cases "n < 10")
    case True
    then show ?thesis
      using digitsValue_snoc [of 10 "[]" "digitChar n"]
      by (simp add: natToString.simps [of n] digitValue_digitChar digitsValue_def)
  next
    case False
    with 1 have "digitsValue 10 (natToString (n div 10)) = n div 10" by simp
    with False show ?thesis
      by (simp add: natToString.simps [of n] digitsValue_snoc digitValue_digitChar)
  qed
qed

lemma decimalChar_props:
  assumes "decimalChar c"
  shows "\<not> isWhiteSpace c" "c \<noteq> CHR ''-''" "c \<noteq> CHR ''+''" "c \<noteq> CHR ''x''" "c \<noteq> CHR ''X''"
    "c \<noteq> CHR '',''" "isDigitIn 10 c"
  using assms by (auto simp add: decimalChar_def isWhiteSpace_def isDigitIn_def digitValue_def)

lemma parseInt_decimal:
  assumes "\<forall>c \<in> set ds. decimalChar c" "ds \<noteq> []"
  shows "parseInt ds = Fin (int (digitsValue 10 ds))"
    and "parseInt (CHR ''-'' # ds) = Fin (- int (digitsValue 10 ds))"
proof -
  obtain c cs where ds: "ds = c # cs" using assms(2) by (cases ds) auto
  have c: "decimalChar c" using assms(1) ds by simp
  have tw: "takeWhile (isDigitIn 10) ds = ds"
    using assms(1) by (simp add: decimalChar_props(7) takeWhile_eq_all_conv)
  have dw: "dropWhile isWhiteSpace ds = ds"
    using c ds by (simp add: decimalChar_props(1))
  have nohex: "take 2 ds \<noteq> ''0x''" "take 2 ds \<noteq> ''0X''"
  proof -
    show "take 2 ds \<noteq> ''0x''"
    proof (cases cs)
      case Nil then show ?thesis using ds by simp
    next
      case (Cons e es)
      then have "decimalChar e" using assms(1) ds by simp
      then show ?thesis using ds Cons decimalChar_props(4) by (auto simp add: numeral_2_eq_2)
    qed
    show "take 2 ds \<noteq> ''0X''"
    proof (cases cs)
      case Nil then show ?thesis using ds by simp
    next
      case (Cons e es)
      then have "decimalChar e" using assms(1) ds by simp
      then show ?thesis using ds Cons decimalChar_props(5) by (auto simp add: numeral_2_eq_2)
    qed
  qed
  have nosign: "take (Suc 0) ds \<noteq> ''-''" "take (Suc 0) ds \<noteq> ''+''"
    using c ds decimalChar_props(2,3) by auto
  show "parseInt ds = Fin (int (digitsValue 10 ds))"
    using assms(2) by (simp add: parseInt_def Let_def dw nosign nohex tw)
  have nw: "\<not> isWhiteSpace CHR ''-''"
    by (simp add: isWhiteSpace_def)
  show "parseInt (CHR ''-'' # ds) = Fin (- int (digitsValue 10 ds))"
    using assms(2) by (simp add: parseInt_def Let_def nw nohex tw)
qed

lemma parseInt_numToString: "parseInt (numToString i) = Fin i"
proof (cases "i < 0")
  case True
  then show ?thesis
    using parseInt_decimal(2) [OF natToString_decimal natToString_nonempty, of "nat (- i)"]
    by (simp add: numToString_def digitsValue_natToString)
next
  case False
  then show ?thesis
    using parseInt_decimal(1) [OF natToString_decimal natToString_nonempty, of "nat i"]
    by (simp add: numToString_def digitsValue_natToString)
qed

lemma numToString_inj: "numToString a = numToString b \<Longrightarrow> a = b"
proof -
  assume "numToString a = numToString b"
  then have "parseInt (numToString a) = parseInt (numToString b)" by simp
  then show "a = b" by (simp add: parseInt_numToString)
qed

lemma numToString_no_comma: "CHR '','' \<notin> set (numToString i)"
  using natToString_decimal decimalChar_props(6)
  by (auto simp add: numToString_def)

lemma splitOn_no_sep: "sep \<notin> set a \<Longrightarrow> splitOn sep a = [a]"
  by (induction a) auto

lemma splitOn_append: "sep \<notin> set a \<Longrightarrow> splitOn sep (a @ sep # b) = a # splitOn sep b"
  by (induction a) auto

lemma splitOn_pointKey: "splitOn CHR '','' (pointKey a b) = [numToString a, numToString b]"
  by (simp add: pointKey_def splitOn_append splitOn_no_sep numToString_no_comma)

lemma pointKey_inj: "pointKey a b = pointKey c d \<longleftrightarrow> a = c \<and> b = d"
proof
  assume "pointKey a b = pointKey c d"
  then have "splitOn CHR '','' (pointKey a b) = splitOn CHR '','' (pointKey c d)" by simp
  then show "a = c \<and> b = d" by (simp add: splitOn_pointKey numToString_inj)
next
  assume "a = c \<and> b = d" then show "pointKey a b = pointKey c d" by simp
qed

lemma arrayToString_pair: "arrayToString [a, b] = pointKey a b"
  by (simp add: arrayToString_def pointKey_def)

subsection \<open>The store, single writes and the iterations of the bulk load\<close>

lemma lookup_writeStore: "lookup (writeStore k v st) k' = (if k' = k then v else lookup st k')"
  by (simp add: lookup_def writeStore_def update_conv' delete_conv')

lemma putAt_coord:
  "putAt (CoordLoc [a, b]) v False df = (Inr (), df\<lparr>store := writeStore (pointKey a b) v (store df)\<rparr>)"
  by (simp add: putAt_def isCoordinate_def arrayToString_pair)

lemma forEachFrom_row:
  "forEachFrom i (\<lambda>val x. putAt (CoordLoc [int x + ox, b]) val False) row df
     = (Inr (), df\<lparr>store := writeRow ox b i row (store df)\<rparr>)"
  by (induction row arbitrary: i df) (simp_all add: putAt_coord)

lemma forEachFrom_rows:
  "forEachFrom i (\<lambda>row y. forEach (\<lambda>val x. putAt (CoordLoc [int x + ox, int y + oy]) val False) row) data df
     = (Inr (), df\<lparr>store := writeRows ox oy i data (store df)\<rparr>)"
  by (induction data arbitrary: i df) (simp_all add: forEach_def forEachFrom_row)

lemma lookup_writeRow_other:
  "(\<forall>j<length row. k \<noteq> pointKey (int (i + j) + ox) b) \<Longrightarrow> lookup (writeRow ox b i row st) k = lookup st k"
proof (induction row arbitrary: i st)
  case Nil
  then show ?case by simp
next
  case (Cons v vs)
  have here: "k \<noteq> pointKey (int i + ox) b"
    using Cons.prems [rule_format, of 0] by simp
  have later: "\<forall>j<length vs. k \<noteq> pointKey (int (Suc i + j) + ox) b"
  proof (intro allI impI)
    fix j assume "j < length vs"
    then show "k \<noteq> pointKey (int (Suc i + j) + ox) b"
      using Cons.prems [rule_format, of "Suc j"] by simp
  qed
  show ?case
    using Cons.IH [OF later] here by (simp add: lookup_writeStore)
qed

lemma lookup_writeRow_hit:
  "j < length row \<Longrightarrow> lookup (writeRow ox b i row st) (pointKey (int (i + j) + ox) b) = row ! j"
proof (induction row arbitrary: i j st)
  case Nil
  then show ?case by simp
next
  case (Cons v vs)
  show ?case
  proof (cases j)
    case 0
    have "\<forall>j'<length vs. pointKey (int i + ox) b \<noteq> pointKey (int (Suc i + j') + ox) b"
      by (simp add: pointKey_inj)
    then have "lookup (writeRow ox b (Suc i) vs (writeStore (pointKey (int i + ox) b) v st)) (pointKey (int i + ox) b)
                 = lookup (writeStore (pointKey (int i + ox) b) v st) (pointKey (int i + ox) b)"
      by (rule lookup_writeRow_other)
    with 0 show ?thesis by (simp add: lookup_writeStore)
  next
    case (Suc j')
    with Cons.prems have "j' < length vs" by simp
    from Cons.IH [OF this, of "Suc i"] Suc show ?thesis by simp
  qed
qed

lemma lookup_writeRows_other:
  "(\<forall>r<length data. \<forall>j<length (data ! r). k \<noteq> pointKey (int j + ox) (int (i + r) + oy))
     \<Longrightarrow> lookup (writeRows ox oy i data st) k = lookup st k"
proof (induction data arbitrary: i st)
  case Nil
  then show ?case by simp
next
  case (Cons row rows)
  have here: "\<forall>j<length row. k \<noteq> pointKey (int (0 + j) + ox) (int i + oy)"
    using Cons.prems [rule_format, of 0] by simp
  have later: "\<forall>r<length rows. \<forall>j<length (rows ! r). k \<noteq> pointKey (int j + ox) (int (Suc i + r) + oy)"
  proof (intro allI impI)
    fix r j assume "r < length rows" "j < length (rows ! r)"
    then show "k \<noteq> pointKey (int j + ox) (int (Suc i + r) + oy)"
      using Cons.prems [rule_format, of "Suc r" j] by simp
  qed
  show ?case
    using Cons.IH [OF later] lookup_writeRow_other [OF here] by simp
qed

lemma lookup_writeRows_hit:
  "r < length data \<Longrightarrow> j < length (data ! r)
     \<Longrightarrow> lookup (writeRows ox oy i data st) (pointKey (int j + ox) (int (i + r) + oy)) = data ! r ! j"
proof (induction data arbitrary: i r st)
  case Nil
  then show ?case by simp
next
  case (Cons row rows)
  show ?case
  proof (cases r)
    case 0
    have "\<forall>r'<length rows. \<forall>j'<length (rows ! r').
            pointKey (int j + ox) (int i + oy) \<noteq> pointKey (int j' + ox) (int (Suc i + r') + oy)"
      by (simp add: pointKey_inj)
    then have "lookup (writeRows ox oy (Suc i) rows (writeRow ox (int i + oy) 0 row st)) (pointKey (int j + ox) (int i + oy))
                 = lookup (writeRow ox (int i + oy) 0 row st) (pointKey (int j + ox) (int i + oy))"
      by (rule lookup_writeRows_other)
    moreover have "lookup (writeRow ox (int i + oy) 0 row st) (pointKey (int (0 + j) + ox) (int i + oy)) = row ! j"
      using Cons.prems 0 by (intro lookup_writeRow_hit) simp
    ultimately show ?thesis using 0 by simp
  next
    case (Suc r')
    with Cons.prems have "r' < length rows" "j < length (rows ! r')" by simp_all
    from Cons.IH [OF this, of "Suc i"] Suc show ?thesis by simp
  qed
qed

lemma mapE_all_ok: "(\<forall>x \<in> set xs. f x = Inr (g x)) \<Longrightarrow> mapE f xs = Inr (map g xs)"
  by (induction xs) simp_all

lemma containsLoc_newPoint:
  "newPoint loc = Some p \<Longrightarrow> containsLoc f loc = inside f (px p) (py p)"
  by (cases loc rule: newPoint.cases) auto

lemma containsLoc_bounds:
  "origin f = origin g \<Longrightarrow> corner f = corner g \<Longrightarrow> containsLoc f loc = containsLoc g loc"
  by (cases loc rule: newPoint.cases) (simp_all add: inside_def)

lemma key_newPoint:
  "newPoint loc = Some p \<Longrightarrow>
     (case loc of PointLoc q \<Rightarrow> Some (pointKey (px q) (py q))
      | CoordLoc xs \<Rightarrow> if isCoordinate xs then Some (arrayToString xs) else None)
     = Some (pointKey (px p) (py p))"
  by (cases loc rule: newPoint.cases) (auto simp add: isCoordinate_def arrayToString_pair)

lemma putAt_newPoint:
  assumes "newPoint loc = Some p"
  shows "putAt loc v notify df =
     (Inr (),
      if notify \<and> callback df
      then df\<lparr>store := writeStore (pointKey (px p) (py p)) v (store df),
              notified := notified df @ [(LocationArg loc, writeStore (pointKey (px p) (py p)) v (store df))]\<rparr>
      else df\<lparr>store := writeStore (pointKey (px p) (py p)) v (store df)\<rparr>)"
  by (simp add: putAt_def Let_def key_newPoint [OF assms])

lemma getAt_newPoint:
  assumes "newPoint loc = Some p"
  shows "getAt loc df =
     (if containsLoc df loc then Inr (lookup (store df) (pointKey (px p) (py p))) else Inl OutsideDataFrame)"
  using assms
  by (cases loc rule: newPoint.cases) (auto simp add: getAt_def isCoordinate_def arrayToString_pair)

lemma loadFromArray_checked:
  assumes "newPoint loc = Some p" and "containsLoc df loc"
    and "containsFrame df \<lparr>origin = p, corner = Point (int (length row0) - 1 + px p) (int (length (row0 # rest)) - 1 + py p)\<rparr>"
  shows "loadFromArray (row0 # rest) loc df =
     (Inr (),
      if callback df
      then df\<lparr>store := writeRows (px p) (py p) 0 (row0 # rest) (store df),
              notified := notified df @
                [(FrameArg \<lparr>origin = p, corner = Point (int (length row0) - 1 + px p) (int (length (row0 # rest)) - 1 + py p)\<rparr>,
                  writeRows (px p) (py p) 0 (row0 # rest) (store df))]\<rparr>
      else df\<lparr>store := writeRows (px p) (py p) 0 (row0 # rest) (store df)\<rparr>)"
  using assms
  by (simp add: loadFromArray_def Let_def forEach_def forEachFrom_rows [of 0 "px p" "py p" "row0 # rest" df] del: forEachFrom.simps writeRows.simps)

lemma loadFromArray_cases:
  "loadFromArray data loc df =
     (if \<not> containsLoc df loc then (Inl OriginNotContained, df)
      else case data of [] \<Rightarrow> (Inl TypeError, df)
        | row0 # rest \<Rightarrow>
           (let p = the (newPoint loc);
                fr = \<lparr>origin = p, corner = Point (int (length row0) - 1 + px p) (int (length data) - 1 + py p)\<rparr>
            in if \<not> containsFrame df fr then (Inl DataOutsideBounds, df)
               else (Inr (),
                 if callback df
                 then df\<lparr>store := writeRows (px p) (py p) 0 data (store df),
                         notified := notified df @ [(FrameArg fr, writeRows (px p) (py p) 0 data (store df))]\<rparr>
                 else df\<lparr>store := writeRows (px p) (py p) 0 data (store df)\<rparr>)))"
proof (cases "containsLoc df loc")
  case False
  then show ?thesis by (simp add: loadFromArray_def)
next
  case True
  then obtain p where p: "newPoint loc = Some p"
    by (cases loc rule: newPoint.cases) auto
  show ?thesis
  proof (cases data)
    case Nil
    with True p show ?thesis by (simp add: loadFromArray_def)
  next
    case (Cons row0 rest)
    show ?thesis
    proof (cases "containsFrame df \<lparr>origin = p, corner = Point (int (length row0) - 1 + px p) (int (length (row0 # rest)) - 1 + py p)\<rparr>")
      case False
      with True p Cons show ?thesis by (simp add: loadFromArray_def Let_def)
    next
      case inb: True
      show ?thesis
        using loadFromArray_checked [OF p True inb] True p Cons inb
        by (simp add: Let_def del: writeRows.simps)
    qed
  qed
qed

subsection \<open>Bulk load and extraction\<close>

lemma inside_box:
  assumes "inside f a0 b0" "inside f a1 b1" "a0 \<le> a" "a \<le> a1" "b0 \<le> b" "b \<le> b1"
  shows "inside f a b"
  using assms by (simp add: inside_def)

lemma getDataArrayForFrame_lookup:
  assumes "containsFrame df g"
  shows "getDataArrayForFrame g df =
     Inr (map (\<lambda>b. map (\<lambda>a. lookup (store df) (pointKey a b)) [px (origin g) .. px (corner g)])
              [py (origin g) .. py (corner g)])"
proof -
  have io: "inside df (px (origin g)) (py (origin g))" and ic: "inside df (px (corner g)) (py (corner g))"
    using assms by (simp_all add: containsFrame_def)
  have cell: "getAt (CoordLoc [a, b]) df = Inr (lookup (store df) (pointKey a b))"
    if "a \<in> set [px (origin g) .. px (corner g)]" "b \<in> set [py (origin g) .. py (corner g)]" for a b
  proof -
    have "inside df a b" using inside_box [OF io ic] that by simp
    then show ?thesis by (simp add: getAt_def isCoordinate_def arrayToString_pair)
  qed
  have row: "mapE (\<lambda>val. getAt (CoordLoc val) df) (map (\<lambda>a. [a, b]) [px (origin g) .. px (corner g)])
      = Inr (map (\<lambda>a. lookup (store df) (pointKey a b)) [px (origin g) .. px (corner g)])"
    if "b \<in> set [py (origin g) .. py (corner g)]" for b
  proof -
    have "mapE (\<lambda>val. getAt (CoordLoc val) df) (map (\<lambda>a. [a, b]) [px (origin g) .. px (corner g)])
      = Inr (map (\<lambda>val. lookup (store df) (pointKey (val ! 0) (val ! 1))) (map (\<lambda>a. [a, b]) [px (origin g) .. px (corner g)]))"
      by (rule mapE_all_ok) (use cell that in auto)
    then show ?thesis by (simp add: comp_def)
  qed
  have "mapE (\<lambda>row. mapE (\<lambda>val. getAt (CoordLoc val) df) row) (coordinateRows g)
      = Inr (map (\<lambda>row. map (\<lambda>val. lookup (store df) (pointKey (val ! 0) (val ! 1))) row) (coordinateRows g))"
    by (rule mapE_all_ok) (use row in \<open>auto simp add: coordinateRows_def comp_def\<close>)
  then show ?thesis
    using assms by (simp add: getDataArrayForFrame_def coordinateRows_def comp_def)
qed

text \<open>
  Claim C1. Let \<open>data\<close> be a rectangular array of \<open>length data \<ge> 1\<close> rows and \<open>cols \<ge> 1\<close>
  columns (a Frame has at least one Point, so a region that a Frame covers has both), and
  let the origin, given as a Point or as a coordinate pair at \<open>(ox, oy)\<close>, be such that the
  region anchored there lies within the bounds of the DataFrame. Then \<^verbatim>\<open>loadFromArray\<close>
  succeeds, and \<^verbatim>\<open>getDataArrayForFrame\<close> on the Frame from \<open>(ox, oy)\<close> to
  \<open>(ox + cols - 1, oy + rows - 1)\<close> afterwards returns exactly \<open>data\<close>: rows outer,
  columns inner, \<^verbatim>\<open>undefined\<close> cells included. The store may hold anything beforehand.
\<close>

theorem loadFromArray_getDataArrayForFrame_roundtrip:
  assumes org: "newPoint loc = Some (Point ox oy)"
    and rows: "data \<noteq> []" and cols: "0 < cols"
    and rect: "\<forall>row \<in> set data. length row = cols"
    and inb: "containsFrame df \<lparr>origin = Point ox oy,
                corner = Point (ox + int cols - 1) (oy + int (length data) - 1)\<rparr>"
  shows "fst (loadFromArray data loc df) = Inr () \<and>
         getDataArrayForFrame
           \<lparr>origin = Point ox oy, corner = Point (ox + int cols - 1) (oy + int (length data) - 1)\<rparr>
           (snd (loadFromArray data loc df)) = Inr data"
proof -
  let ?g = "\<lparr>origin = Point ox oy, corner = Point (ox + int cols - 1) (oy + int (length data) - 1)\<rparr>"
  obtain row0 rest where data: "data = row0 # rest" using rows by (cases data) auto
  have len0: "length row0 = cols" using rect data by simp
  have cl: "containsLoc df loc"
    using inb by (simp add: containsLoc_newPoint [OF org] containsFrame_def)
  have fr: "\<lparr>origin = Point ox oy, corner = Point (int (length row0) - 1 + px (Point ox oy)) (int (length (row0 # rest)) - 1 + py (Point ox oy))\<rparr> = ?g"
    using data len0 by simp
  have inb': "containsFrame df \<lparr>origin = Point ox oy, corner = Point (int (length row0) - 1 + px (Point ox oy)) (int (length (row0 # rest)) - 1 + py (Point ox oy))\<rparr>"
    by (subst fr) (rule inb)
  note L = loadFromArray_checked [OF org cl inb']
  let ?df' = "snd (loadFromArray data loc df)"
  have ok: "fst (loadFromArray data loc df) = Inr ()"
    using L data by simp
  have st: "store ?df' = writeRows ox oy 0 data (store df)"
    using L data by (simp del: writeRows.simps)
  have bounds: "origin ?df' = origin df" "corner ?df' = corner df"
    using L data by (simp_all del: writeRows.simps)
  have inb2: "containsFrame ?df' ?g"
    using inb unfolding containsFrame_def by (simp only: containsLoc_bounds [OF bounds])
  have "map (\<lambda>b. map (\<lambda>a. lookup (store ?df') (pointKey a b)) [px (origin ?g) .. px (corner ?g)])
              [py (origin ?g) .. py (corner ?g)] = data"
  proof (rule nth_equalityI)
    show "length (map (\<lambda>b. map (\<lambda>a. lookup (store ?df') (pointKey a b)) [px (origin ?g) .. px (corner ?g)])
              [py (origin ?g) .. py (corner ?g)]) = length data"
      by simp
  next
    fix r assume "r < length (map (\<lambda>b. map (\<lambda>a. lookup (store ?df') (pointKey a b)) [px (origin ?g) .. px (corner ?g)])
              [py (origin ?g) .. py (corner ?g)])"
    then have r: "r < length data" by simp
    then have lr: "length (data ! r) = cols" using rect by simp
    have yr: "[oy .. oy + int (length data) - 1] ! r = oy + int r"
      using r by (simp add: nth_upto)
    have "map (\<lambda>a. lookup (store ?df') (pointKey a (oy + int r))) [ox .. ox + int cols - 1] = data ! r"
    proof (rule nth_equalityI)
      show "length (map (\<lambda>a. lookup (store ?df') (pointKey a (oy + int r))) [ox .. ox + int cols - 1]) = length (data ! r)"
        using lr by simp
    next
      fix j assume "j < length (map (\<lambda>a. lookup (store ?df') (pointKey a (oy + int r))) [ox .. ox + int cols - 1])"
      then have j: "j < cols" by simp
      have xj: "[ox .. ox + int cols - 1] ! j = ox + int j"
        using j by (simp add: nth_upto)
      have "lookup (writeRows ox oy 0 data (store df)) (pointKey (int j + ox) (int (0 + r) + oy)) = data ! r ! j"
        using r j lr by (intro lookup_writeRows_hit) simp_all
      then show "map (\<lambda>a. lookup (store ?df') (pointKey a (oy + int r))) [ox .. ox + int cols - 1] ! j = data ! r ! j"
        using j xj st by (simp add: add.commute)
    qed
    then show "map (\<lambda>b. map (\<lambda>a. lookup (store ?df') (pointKey a b)) [px (origin ?g) .. px (corner ?g)])
              [py (origin ?g) .. py (corner ?g)] ! r = data ! r"
      using r yr by simp
  qed
  then show ?thesis
    using ok getDataArrayForFrame_lookup [OF inb2] by simp
qed

text \<open>A 2-by-3 array loaded at \<open>(1, 2)\<close> into a 5-by-5 DataFrame that already holds a value
  in the region.\<close>

theorem loadFromArray_getDataArrayForFrame_roundtrip_witness:
  "fst (loadFromArray [[Val (1::nat), Null, Val 3], [Undefined, Val 5, Val 6]] (CoordLoc [1, 2])
          \<lparr>origin = Point 0 0, corner = Point 4 4, store = [(''2,2'', Val 9)], callback = True, notified = []\<rparr>) = Inr () \<and>
   getDataArrayForFrame \<lparr>origin = Point 1 2, corner = Point 3 3\<rparr>
     (snd (loadFromArray [[Val (1::nat), Null, Val 3], [Undefined, Val 5, Val 6]] (CoordLoc [1, 2])
          \<lparr>origin = Point 0 0, corner = Point 4 4, store = [(''2,2'', Val 9)], callback = True, notified = []\<rparr>))
     = Inr [[Val 1, Null, Val 3], [Undefined, Val 5, Val 6]]"
  using loadFromArray_getDataArrayForFrame_roundtrip
    [of "CoordLoc [1, 2]" 1 2 "[[Val (1::nat), Null, Val 3], [Undefined, Val 5, Val 6]]" 3
        "\<lparr>origin = Point 0 0, corner = Point 4 4, store = [(''2,2'', Val 9)], callback = True, notified = []\<rparr>"]
  by (simp add: containsFrame_def inside_def)

text \<open>
  Claim C2. \<^verbatim>\<open>loadFromArray\<close> is all-or-nothing: whenever it throws, the DataFrame (its store
  included) is exactly what it was before the call. It throws for an origin outside the
  bounds, for a bounding Frame of the incoming data outside the bounds, and for an empty
  \<open>data\<close> (the TypeError of \<^verbatim>\<open>data[0].length\<close>); all three precede the first write, and the
  writes themselves never throw.
\<close>

theorem loadFromArray_all_or_nothing:
  assumes "fst (loadFromArray data loc df) = Inl e"
  shows "snd (loadFromArray data loc df) = df \<and>
         e \<in> {OriginNotContained, TypeError, DataOutsideBounds}"
proof (cases "containsLoc df loc")
  case False
  then have "loadFromArray data loc df = (Inl OriginNotContained, df)"
    by (simp add: loadFromArray_cases)
  with assms show ?thesis by simp
next
  case True
  show ?thesis
  proof (cases data)
    case Nil
    with True have "loadFromArray data loc df = (Inl TypeError, df)"
      by (simp add: loadFromArray_cases)
    with assms show ?thesis by simp
  next
    case (Cons row0 rest)
    let ?p = "the (newPoint loc)"
    let ?fr = "\<lparr>origin = ?p, corner = Point (int (length row0) - 1 + px ?p) (int (length data) - 1 + py ?p)\<rparr>"
    show ?thesis
    proof (cases "containsFrame df ?fr")
      case False
      with True Cons have "loadFromArray data loc df = (Inl DataOutsideBounds, df)"
        by (simp add: loadFromArray_cases Let_def)
      with assms show ?thesis by simp
    next
      case inb: True
      with True Cons have "fst (loadFromArray data loc df) = Inr ()"
        by (simp add: loadFromArray_cases Let_def del: writeRows.simps)
      with assms show ?thesis by simp
    qed
  qed
qed

text \<open>
  A 2-by-2 array at \<open>(2, 2)\<close> of a 3-by-3 DataFrame runs over the corner: the call throws and
  the entry stored before is untouched.
\<close>

theorem loadFromArray_all_or_nothing_witness:
  "snd (loadFromArray [[Val (1::nat), Val 2], [Val 3, Val 4]] (CoordLoc [2, 2])
          \<lparr>origin = Point 0 0, corner = Point 2 2, store = [(''2,2'', Val 9)], callback = True, notified = []\<rparr>)
     = \<lparr>origin = Point 0 0, corner = Point 2 2, store = [(''2,2'', Val 9)], callback = True, notified = []\<rparr>
   \<and> fst (loadFromArray [[Val (1::nat), Val 2], [Val 3, Val 4]] (CoordLoc [2, 2])
          \<lparr>origin = Point 0 0, corner = Point 2 2, store = [(''2,2'', Val 9)], callback = True, notified = []\<rparr>)
     = Inl DataOutsideBounds"
proof -
  let ?df = "\<lparr>origin = Point 0 0, corner = Point 2 2, store = [(''2,2'', Val (9::nat))], callback = True, notified = []\<rparr>"
  have f: "fst (loadFromArray [[Val (1::nat), Val 2], [Val 3, Val 4]] (CoordLoc [2, 2]) ?df) = Inl DataOutsideBounds"
    by (simp add: loadFromArray_def containsFrame_def inside_def)
  from loadFromArray_all_or_nothing [OF f] f show ?thesis by simp
qed

text \<open>
  Claim C8. On a successful \<^verbatim>\<open>loadFromArray\<close> the cells are written by \<^verbatim>\<open>putAt\<close> with
  \<open>notify = false\<close>, so no write invokes the callback: the history of invocations grows by
  nothing when no callback is registered, and by exactly one invocation when one is. That
  invocation receives the computed bounding Frame and observes the final store, in which
  every cell of \<open>data\<close> has been written: it comes after all the writes.
\<close>

theorem loadFromArray_notifies_once:
  assumes "fst (loadFromArray data loc df) = Inr ()"
  shows "\<exists>p row0 rest.
           newPoint loc = Some p \<and> data = row0 # rest \<and>
           notified (snd (loadFromArray data loc df)) =
             notified df @
               (if callback df
                then [(FrameArg \<lparr>origin = p,
                                 corner = Point (int (length row0) - 1 + px p) (int (length data) - 1 + py p)\<rparr>,
                       store (snd (loadFromArray data loc df)))]
                else []) \<and>
           (\<forall>r < length data. \<forall>j < length (data ! r).
              lookup (store (snd (loadFromArray data loc df))) (pointKey (int j + px p) (int r + py p))
                = data ! r ! j)"
proof -
  have cl: "containsLoc df loc"
    using assms by (auto simp add: loadFromArray_cases split: if_splits)
  then obtain p where p: "newPoint loc = Some p"
    by (cases loc rule: newPoint.cases) auto
  obtain row0 rest where data: "data = row0 # rest"
    using assms cl by (cases data) (auto simp add: loadFromArray_cases)
  have inb: "containsFrame df \<lparr>origin = p, corner = Point (int (length row0) - 1 + px p) (int (length (row0 # rest)) - 1 + py p)\<rparr>"
    using assms cl p data by (auto simp add: loadFromArray_cases Let_def split: if_splits)
  note L = loadFromArray_checked [OF p cl inb]
  have st: "store (snd (loadFromArray data loc df)) = writeRows (px p) (py p) 0 data (store df)"
    using L data by (simp del: writeRows.simps)
  have nt: "notified (snd (loadFromArray data loc df)) =
             notified df @
               (if callback df
                then [(FrameArg \<lparr>origin = p,
                                 corner = Point (int (length row0) - 1 + px p) (int (length data) - 1 + py p)\<rparr>,
                       store (snd (loadFromArray data loc df)))]
                else [])"
    using L data by (simp del: writeRows.simps)
  have cells: "\<forall>r < length data. \<forall>j < length (data ! r).
      lookup (store (snd (loadFromArray data loc df))) (pointKey (int j + px p) (int r + py p)) = data ! r ! j"
  proof (intro allI impI)
    fix r j assume "r < length data" "j < length (data ! r)"
    then show "lookup (store (snd (loadFromArray data loc df))) (pointKey (int j + px p) (int r + py p)) = data ! r ! j"
      using lookup_writeRows_hit [of r data j "px p" "py p" 0 "store df"] st by simp
  qed
  show ?thesis
    using p data nt cells by blast
qed

text \<open>
  A 2-by-2 array loaded at \<open>(1, 1)\<close> with a callback registered: one invocation, with the
  Frame from \<open>(1, 1)\<close> to \<open>(2, 2)\<close>.
\<close>

theorem loadFromArray_notifies_once_witness:
  "notified (snd (loadFromArray [[Val (1::nat), Val 2], [Val 3, Val 4]] (CoordLoc [1, 1])
          \<lparr>origin = Point 0 0, corner = Point 2 2, store = [], callback = True, notified = []\<rparr>))
     = [(FrameArg \<lparr>origin = Point 1 1, corner = Point 2 2\<rparr>,
         store (snd (loadFromArray [[Val (1::nat), Val 2], [Val 3, Val 4]] (CoordLoc [1, 1])
          \<lparr>origin = Point 0 0, corner = Point 2 2, store = [], callback = True, notified = []\<rparr>)))]"
proof -
  let ?df = "\<lparr>origin = Point 0 0, corner = Point 2 2, store = ([] :: (string \<times> nat jsval) list), callback = True, notified = []\<rparr>"
  let ?data = "[[Val (1::nat), Val 2], [Val 3, Val 4]]"
  have f: "fst (loadFromArray ?data (CoordLoc [1, 1]) ?df) = Inr ()"
    by (simp add: loadFromArray_cases containsFrame_def inside_def Let_def del: writeRows.simps)
  from loadFromArray_notifies_once [OF f] show ?thesis by auto
qed

subsection \<open>Write and read of one cell\<close>

lemma putAt_bounds:
  "origin (snd (putAt loc v notify df)) = origin df" "corner (snd (putAt loc v notify df)) = corner df"
  by (simp_all add: putAt_def Let_def split: option.splits)

lemma containsLoc_putAt:
  "containsLoc (snd (putAt loc v notify df)) l = containsLoc df l"
  by (rule containsLoc_bounds) (rule putAt_bounds)+

lemma store_putAt:
  "newPoint loc = Some p \<Longrightarrow>
     store (snd (putAt loc v notify df)) = writeStore (pointKey (px p) (py p)) v (store df)"
  by (simp add: putAt_newPoint)

text \<open>
  Claim C3. For a well-formed location (a Point, or a two-element coordinate pair) with
  coordinates \<open>p\<close>: \<^verbatim>\<open>putAt\<close> does not throw and stores the value under the key of \<open>p\<close> (or
  deletes that key, for \<^verbatim>\<open>undefined\<close>) whether or not the location lies within the bounds;
  \<^verbatim>\<open>getAt\<close> throws the outside-of-DataFrame error if and only if the location is not
  contained in the bounds, and returns the stored value otherwise.
\<close>

theorem putAt_unchecked_getAt_checked:
  assumes "newPoint loc = Some p"
  shows "fst (putAt loc v notify df) = Inr () \<and>
         store (snd (putAt loc v notify df)) =
           (if v = Undefined then AList.delete (pointKey (px p) (py p)) (store df)
            else AList.update (pointKey (px p) (py p)) v (store df)) \<and>
         (getAt loc df = Inl OutsideDataFrame \<longleftrightarrow> \<not> containsLoc df loc) \<and>
         (containsLoc df loc \<longrightarrow> getAt loc df = Inr (lookup (store df) (pointKey (px p) (py p))))"
  by (simp add: putAt_newPoint [OF assms] getAt_newPoint [OF assms] writeStore_def)

text \<open>
  The location \<open>[7, 9]\<close> lies outside the bounds \<open>(0,0)-(2,2)\<close>: the write is accepted and
  stored, the read of the same location throws.
\<close>

theorem putAt_unchecked_getAt_checked_witness:
  "fst (putAt (CoordLoc [7, 9]) (Val (1::nat)) True
         \<lparr>origin = Point 0 0, corner = Point 2 2, store = [], callback = False, notified = []\<rparr>) = Inr () \<and>
   store (snd (putAt (CoordLoc [7, 9]) (Val (1::nat)) True
         \<lparr>origin = Point 0 0, corner = Point 2 2, store = [], callback = False, notified = []\<rparr>))
     = [(pointKey 7 9, Val 1)] \<and>
   getAt (CoordLoc [7, 9])
         \<lparr>origin = Point 0 0, corner = Point 2 2, store = [(pointKey 7 9, Val (1::nat))], callback = False, notified = []\<rparr>
     = Inl OutsideDataFrame"
  using putAt_unchecked_getAt_checked [of "CoordLoc [7, 9]" "Point 7 9" "Val (1::nat)" True
          "\<lparr>origin = Point 0 0, corner = Point 2 2, store = [], callback = False, notified = []\<rparr>"]
        putAt_unchecked_getAt_checked [of "CoordLoc [7, 9]" "Point 7 9" "Val (1::nat)" True
          "\<lparr>origin = Point 0 0, corner = Point 2 2, store = [(pointKey 7 9, Val (1::nat))], callback = False, notified = []\<rparr>"]
  by (simp add: inside_def)

text \<open>
  Claim C4. For a Point \<open>p\<close> within the bounds: after \<^verbatim>\<open>putAt(p, v)\<close> with \<open>v\<close> not
  \<^verbatim>\<open>undefined\<close>, \<^verbatim>\<open>getAt(p)\<close> returns \<open>v\<close>; after \<^verbatim>\<open>putAt(p, undefined)\<close> the key of \<open>p\<close>
  is no longer among the keys of the store and \<^verbatim>\<open>getAt(p)\<close> returns \<^verbatim>\<open>undefined\<close> without
  throwing. This holds for either value of \<open>notify\<close>.
\<close>

theorem putAt_getAt_readback:
  assumes "containsLoc df (PointLoc p)"
  shows "(v \<noteq> Undefined \<longrightarrow> getAt (PointLoc p) (snd (putAt (PointLoc p) v notify df)) = Inr v) \<and>
         pointKey (px p) (py p) \<notin> set (objectKeys (store (snd (putAt (PointLoc p) Undefined notify df)))) \<and>
         getAt (PointLoc p) (snd (putAt (PointLoc p) Undefined notify df)) = Inr Undefined"
proof -
  have np: "newPoint (PointLoc p) = Some p" by simp
  have rd: "getAt (PointLoc p) (snd (putAt (PointLoc p) w notify df)) = Inr w" for w
    using assms
    by (simp add: getAt_newPoint [OF np] containsLoc_putAt store_putAt [OF np] lookup_writeStore
             del: containsLoc.simps)
  have "store (snd (putAt (PointLoc p) Undefined notify df)) = AList.delete (pointKey (px p) (py p)) (store df)"
    by (simp add: store_putAt [OF np] writeStore_def)
  then have "pointKey (px p) (py p) \<notin> set (objectKeys (store (snd (putAt (PointLoc p) Undefined notify df))))"
    by (simp add: objectKeys_def delete_keys)
  with rd show ?thesis by simp
qed

text \<open>
  At \<open>(1, 2)\<close>, where a value was stored before: \<^verbatim>\<open>null\<close> is read back as written, and
  \<^verbatim>\<open>undefined\<close> removes the entry.
\<close>

theorem putAt_getAt_readback_witness:
  "getAt (PointLoc (Point 1 2)) (snd (putAt (PointLoc (Point 1 2)) Null True
      \<lparr>origin = Point 0 0, corner = Point 2 2, store = [(pointKey 1 2, Val (5::nat))], callback = True, notified = []\<rparr>))
     = Inr Null \<and>
   getAt (PointLoc (Point 1 2)) (snd (putAt (PointLoc (Point 1 2)) Undefined True
      \<lparr>origin = Point 0 0, corner = Point 2 2, store = [(pointKey 1 2, Val (5::nat))], callback = True, notified = []\<rparr>))
     = Inr Undefined \<and>
   pointKey 1 2 \<notin> set (objectKeys (store (snd (putAt (PointLoc (Point 1 2)) Undefined True
      \<lparr>origin = Point 0 0, corner = Point 2 2, store = [(pointKey 1 2, Val (5::nat))], callback = True, notified = []\<rparr>))))"
  using putAt_getAt_readback [of
      "\<lparr>origin = Point 0 0, corner = Point 2 2, store = [(pointKey 1 2, Val (5::nat))], callback = True, notified = []\<rparr>"
      "Point 1 2" Null True]
  by (simp add: inside_def)

text \<open>
  Claim C10. A Point at \<open>(a, b)\<close> and the coordinate pair \<open>[a, b]\<close> derive the same key
  (the template literal of \<^verbatim>\<open>putAt\<close> and \<^verbatim>\<open>getAt\<close> for a Point, \<^verbatim>\<open>toString\<close> of the array for
  a pair), so for coordinates within the bounds a value written through one form is read
  back through the other. It holds for every value, the non-absent ones in particular.
\<close>

theorem point_and_pair_interchangeable:
  assumes "inside df a b"
  shows "arrayToString [a, b] = pointKey a b \<and>
         getAt (CoordLoc [a, b]) (snd (putAt (PointLoc (Point a b)) v notify df)) = Inr v \<and>
         getAt (PointLoc (Point a b)) (snd (putAt (CoordLoc [a, b]) v notify df)) = Inr v"
proof -
  have n1: "newPoint (PointLoc (Point a b)) = Some (Point a b)"
    and n2: "newPoint (CoordLoc [a, b]) = Some (Point a b)" by simp_all
  have c1: "containsLoc df (PointLoc (Point a b))" and c2: "containsLoc df (CoordLoc [a, b])"
    using assms by simp_all
  have "getAt (CoordLoc [a, b]) (snd (putAt (PointLoc (Point a b)) v notify df)) = Inr v"
    using c2
    by (simp add: getAt_newPoint [OF n2] containsLoc_putAt store_putAt [OF n1] lookup_writeStore
             del: containsLoc.simps)
  moreover have "getAt (PointLoc (Point a b)) (snd (putAt (CoordLoc [a, b]) v notify df)) = Inr v"
    using c1
    by (simp add: getAt_newPoint [OF n1] containsLoc_putAt store_putAt [OF n2] lookup_writeStore
             del: containsLoc.simps)
  ultimately show ?thesis by (simp add: arrayToString_pair)
qed

text \<open>
  At \<open>(2, 1)\<close> of a 3-by-3 DataFrame, in both directions.
\<close>

theorem point_and_pair_interchangeable_witness:
  "getAt (CoordLoc [2, 1]) (snd (putAt (PointLoc (Point 2 1)) (Val (7::nat)) True
      \<lparr>origin = Point 0 0, corner = Point 2 2, store = [], callback = False, notified = []\<rparr>)) = Inr (Val 7) \<and>
   getAt (PointLoc (Point 2 1)) (snd (putAt (CoordLoc [2, 1]) (Val (7::nat)) True
      \<lparr>origin = Point 0 0, corner = Point 2 2, store = [], callback = False, notified = []\<rparr>)) = Inr (Val 7)"
  using point_and_pair_interchangeable [of
      "\<lparr>origin = Point 0 0, corner = Point 2 2, store = [], callback = False, notified = []\<rparr>" 2 1 "Val (7::nat)" True]
  by (simp add: inside_def)

text \<open>
  Claim C9. \<^verbatim>\<open>isFull\<close> compares the number of keys with the area and does not look at where
  the keys lie. A DataFrame with bounds \<open>(0,0)-(1,0)\<close> (area 2) receives \<^verbatim>\<open>putAt([0,0], 1)\<close>
  and \<^verbatim>\<open>putAt([5,5], 2)\<close>, the second outside its bounds; \<^verbatim>\<open>isFull\<close> is then true although
  the Point \<open>(1, 0)\<close>, which is within the bounds, has no entry.
\<close>

theorem isFull_counts_keys_out_of_bounds:
  "\<not> containsLoc \<lparr>origin = Point 0 0, corner = Point 1 0, store = [], callback = False, notified = []\<rparr> (CoordLoc [5, 5]) \<and>
   isFull (snd (putAt (CoordLoc [5, 5]) (Val (2::nat)) True
            (snd (putAt (CoordLoc [0, 0]) (Val 1) True
               \<lparr>origin = Point 0 0, corner = Point 1 0, store = [], callback = False, notified = []\<rparr>)))) \<and>
   containsLoc \<lparr>origin = Point 0 0, corner = Point 1 0, store = [], callback = False, notified = []\<rparr> (PointLoc (Point 1 0)) \<and>
   getAt (PointLoc (Point 1 0))
     (snd (putAt (CoordLoc [5, 5]) (Val (2::nat)) True
            (snd (putAt (CoordLoc [0, 0]) (Val 1) True
               \<lparr>origin = Point 0 0, corner = Point 1 0, store = [], callback = False, notified = []\<rparr>))))
     = Inr Undefined"
  by code_simp

subsection \<open>The minimal Frame of the stored keys\<close>

lemma foldl_numMin_Fin: "foldl numMin (Fin a) (map Fin xs) = Fin (fold min xs a)"
  by (induction xs arbitrary: a) (simp_all add: min.commute)

lemma foldl_numMax_Fin: "foldl numMax (Fin a) (map Fin xs) = Fin (fold max xs a)"
  by (induction xs arbitrary: a) (simp_all add: max.commute)

lemma mathMin_Fin:
  assumes "xs \<noteq> []" "length xs \<le> maxArgs"
  shows "mathMin maxArgs (map Fin xs) = Inr (Fin (Min (set xs)))"
proof -
  obtain y ys where xs: "xs = y # ys" using assms(1) by (cases xs) auto
  have "mathMin maxArgs (map Fin xs) = Inr (Fin (fold min ys y))"
    using assms(2) by (simp add: mathMin_def xs foldl_numMin_Fin)
  then show ?thesis by (simp only: xs Min.set_eq_fold)
qed

lemma mathMax_Fin:
  assumes "xs \<noteq> []" "length xs \<le> maxArgs"
  shows "mathMax maxArgs (map Fin xs) = Inr (Fin (Max (set xs)))"
proof -
  obtain y ys where xs: "xs = y # ys" using assms(1) by (cases xs) auto
  have "mathMax maxArgs (map Fin xs) = Inr (Fin (fold max ys y))"
    using assms(2) by (simp add: mathMax_def xs foldl_numMax_Fin)
  then show ?thesis by (simp only: xs Max.set_eq_fold)
qed

lemma keyCoords_pointKeys:
  assumes "objectKeys st = map (\<lambda>(a, b). pointKey a b) ps"
  shows "keyCoords st = map (\<lambda>(a, b). [Fin a, Fin b]) ps"
  by (simp add: keyCoords_def assms splitOn_pointKey parseInt_numToString split_def)

text \<open>The keys of the store keep the form \<open>x,y\<close> under the write of \<^verbatim>\<open>putAt\<close> at a
  well-formed location.\<close>

lemma writeStore_keys:
  assumes "objectKeys st = map (\<lambda>(a, b). pointKey a b) ps"
  shows "\<exists>ps'. objectKeys (writeStore (pointKey a b) v st) = map (\<lambda>(a, b). pointKey a b) ps'"
proof (cases "v = Undefined")
  case True
  have "objectKeys (writeStore (pointKey a b) v st)
          = map (\<lambda>(a, b). pointKey a b) (filter (\<lambda>q. pointKey a b \<noteq> (\<lambda>(a, b). pointKey a b) q) ps)"
    using assms True
    by (simp add: objectKeys_def writeStore_def delete_keys removeAll_filter_not_eq filter_map comp_def)
  then show ?thesis by blast
next
  case False
  show ?thesis
  proof (cases "pointKey a b \<in> set (objectKeys st)")
    case True
    with False assms have "objectKeys (writeStore (pointKey a b) v st) = map (\<lambda>(a, b). pointKey a b) ps"
      by (simp add: objectKeys_def writeStore_def update_keys)
    then show ?thesis by blast
  next
    case notin: False
    with False assms have "objectKeys (writeStore (pointKey a b) v st) = map (\<lambda>(a, b). pointKey a b) (ps @ [(a, b)])"
      by (simp add: objectKeys_def writeStore_def update_keys)
    then show ?thesis by blast
  qed
qed

text \<open>
  Within the bound on the number of arguments: let the store be non-empty, its keys those
  of the coordinates \<open>ps\<close> (the keys that \<^verbatim>\<open>putAt\<close> writes, see \<open>writeStore_keys\<close>), and no
  more of them than a call accepts arguments. Then \<^verbatim>\<open>minFrame\<close> has as origin the
  componentwise minimum and as corner the componentwise maximum of \<open>ps\<close>, and
  \<^verbatim>\<open>minFrameFromOrigin\<close> has the same corner and the declared origin of the DataFrame.
\<close>

lemma minFrame_within_bound:
  assumes "ps \<noteq> []"
    and "objectKeys (store df) = map (\<lambda>(a, b). pointKey a b) ps"
    and "length ps \<le> maxArgs"
  shows "minFrame maxArgs df =
           Inr \<lparr>origin = Point (Fin (Min (fst ` set ps))) (Fin (Min (snd ` set ps))),
                corner = Point (Fin (Max (fst ` set ps))) (Fin (Max (snd ` set ps)))\<rparr>"
    and "minFrameFromOrigin maxArgs df =
           Inr \<lparr>origin = Point (Fin (px (origin df))) (Fin (py (origin df))),
                corner = Point (Fin (Max (fst ` set ps))) (Fin (Max (snd ` set ps)))\<rparr>"
proof -
  have xs: "map (\<lambda>coord. coordAt coord 0) (keyCoords (store df)) = map Fin (map fst ps)"
    by (simp add: keyCoords_pointKeys [OF assms(2)] coordAt_def split_def comp_def)
  have ys: "map (\<lambda>coord. coordAt coord 1) (keyCoords (store df)) = map Fin (map snd ps)"
    by (simp add: keyCoords_pointKeys [OF assms(2)] coordAt_def split_def comp_def)
  have ne: "map fst ps \<noteq> []" "map snd ps \<noteq> []" using assms(1) by simp_all
  have le: "length (map fst ps) \<le> maxArgs" "length (map snd ps) \<le> maxArgs" using assms(3) by simp_all
  show mf: "minFrame maxArgs df =
           Inr \<lparr>origin = Point (Fin (Min (fst ` set ps))) (Fin (Min (snd ` set ps))),
                corner = Point (Fin (Max (fst ` set ps))) (Fin (Max (snd ` set ps)))\<rparr>"
    unfolding minFrame_def Let_def xs ys
    using mathMin_Fin [OF ne(1) le(1)] mathMin_Fin [OF ne(2) le(2)]
          mathMax_Fin [OF ne(1) le(1)] mathMax_Fin [OF ne(2) le(2)]
    by simp
  then show "minFrameFromOrigin maxArgs df =
           Inr \<lparr>origin = Point (Fin (px (origin df))) (Fin (py (origin df))),
                corner = Point (Fin (Max (fst ` set ps))) (Fin (Max (snd ` set ps)))\<rparr>"
    by (simp add: minFrameFromOrigin_def)
qed

text \<open>
  Entries at \<open>(2, 3)\<close> and \<open>(5, 1)\<close> and nothing else, declared origin \<open>(0, 0)\<close>:
  \<^verbatim>\<open>minFrame\<close> is \<open>(2,1)-(5,3)\<close> and \<^verbatim>\<open>minFrameFromOrigin\<close> is \<open>(0,0)-(5,3)\<close>, on every
  engine that accepts two arguments.
\<close>

lemma minFrame_spec_example:
  assumes "2 \<le> maxArgs"
  shows "minFrame maxArgs (snd (putAt (CoordLoc [5, 1]) (Val (8::nat)) True
       (snd (putAt (PointLoc (Point 2 3)) (Val 7) True
          \<lparr>origin = Point 0 0, corner = Point 9 9, store = [], callback = False, notified = []\<rparr>))))
     = Inr \<lparr>origin = Point (Fin 2) (Fin 1), corner = Point (Fin 5) (Fin 3)\<rparr>"
   and "minFrameFromOrigin maxArgs (snd (putAt (CoordLoc [5, 1]) (Val (8::nat)) True
       (snd (putAt (PointLoc (Point 2 3)) (Val 7) True
          \<lparr>origin = Point 0 0, corner = Point 9 9, store = [], callback = False, notified = []\<rparr>))))
     = Inr \<lparr>origin = Point (Fin 0) (Fin 0), corner = Point (Fin 5) (Fin 3)\<rparr>"
proof -
  let ?df = "snd (putAt (CoordLoc [5, 1]) (Val (8::nat)) True
       (snd (putAt (PointLoc (Point 2 3)) (Val 7) True
          \<lparr>origin = Point 0 0, corner = Point 9 9, store = [], callback = False, notified = []\<rparr>)))"
  have ne: "pointKey 2 3 \<noteq> pointKey 5 1" by (simp add: pointKey_inj)
  have st: "store ?df = [(pointKey 2 3, Val 7), (pointKey 5 1, Val 8)]"
    using ne by (simp add: putAt_def isCoordinate_def arrayToString_pair writeStore_def)
  have keys: "objectKeys (store ?df) = map (\<lambda>(a, b). pointKey a b) [(2, 3), (5, 1)]"
    by (simp add: st objectKeys_def)
  have org: "origin ?df = Point 0 0"
    by (simp add: putAt_bounds)
  have len: "length [(2::int, 3::int), (5, 1)] \<le> maxArgs" using assms by simp
  from minFrame_within_bound(1) [OF _ keys len]
  show "minFrame maxArgs ?df = Inr \<lparr>origin = Point (Fin 2) (Fin 1), corner = Point (Fin 5) (Fin 3)\<rparr>"
    by simp
  from minFrame_within_bound(2) [OF _ keys len] org
  show "minFrameFromOrigin maxArgs ?df = Inr \<lparr>origin = Point (Fin 0) (Fin 0), corner = Point (Fin 5) (Fin 3)\<rparr>"
    by simp
qed

text \<open>
  The number of keys after a bulk load: every value other than \<^verbatim>\<open>undefined\<close> written at a
  key that the store does not hold adds a key. The DataFrame that the grid sheet builds
  holds one key for each of its \<open>1001 * 1001\<close> Points.
\<close>

lemma objectKeys_writeStore_new:
  "v \<noteq> Undefined \<Longrightarrow> k \<notin> set (objectKeys st) \<Longrightarrow> objectKeys (writeStore k v st) = objectKeys st @ [k]"
  by (simp add: objectKeys_def writeStore_def update_keys)

lemma objectKeys_writeRow:
  assumes "Undefined \<notin> set row"
    and "\<forall>j<length row. pointKey (int (i + j) + ox) b \<notin> set (objectKeys st)"
  shows "objectKeys (writeRow ox b i row st)
           = objectKeys st @ map (\<lambda>j. pointKey (int j + ox) b) [i ..< i + length row]"
  using assms
proof (induction row arbitrary: i st)
  case Nil
  then show ?case by simp
next
  case (Cons v vs)
  let ?k = "pointKey (int i + ox) b"
  have v: "v \<noteq> Undefined" and vs: "Undefined \<notin> set vs" using Cons.prems(1) by auto
  have new: "?k \<notin> set (objectKeys st)"
    using Cons.prems(2) [rule_format, of 0] by simp
  have keys1: "objectKeys (writeStore ?k v st) = objectKeys st @ [?k]"
    by (rule objectKeys_writeStore_new [OF v new])
  have later: "\<forall>j<length vs. pointKey (int (Suc i + j) + ox) b \<notin> set (objectKeys (writeStore ?k v st))"
  proof (intro allI impI)
    fix j assume j: "j < length vs"
    have "pointKey (int (Suc i + j) + ox) b \<notin> set (objectKeys st)"
      using Cons.prems(2) [rule_format, of "Suc j"] j by simp
    moreover have "pointKey (int (Suc i + j) + ox) b \<noteq> ?k"
      by (simp add: pointKey_inj)
    ultimately show "pointKey (int (Suc i + j) + ox) b \<notin> set (objectKeys (writeStore ?k v st))"
      by (simp add: keys1)
  qed
  have "objectKeys (writeRow ox b (Suc i) vs (writeStore ?k v st))
          = objectKeys (writeStore ?k v st) @ map (\<lambda>j. pointKey (int j + ox) b) [Suc i ..< Suc i + length vs]"
    by (rule Cons.IH [OF vs later])
  moreover have "[i ..< i + length (v # vs)] = i # [Suc i ..< Suc i + length vs]"
    by (subst upt_rec) simp
  ultimately show ?case
    by (simp add: keys1 del: upt_Suc)
qed

lemma objectKeys_writeRows_length:
  assumes "\<forall>row \<in> set data. Undefined \<notin> set row"
    and "\<forall>r<length data. \<forall>j<length (data ! r).
            pointKey (int j + ox) (int (i + r) + oy) \<notin> set (objectKeys st)"
  shows "length (objectKeys (writeRows ox oy i data st))
           = length (objectKeys st) + sum_list (map length data)"
  using assms
proof (induction data arbitrary: i st)
  case Nil
  then show ?case by simp
next
  case (Cons row rows)
  have row: "Undefined \<notin> set row" and rows: "\<forall>r \<in> set rows. Undefined \<notin> set r"
    using Cons.prems(1) by simp_all
  have fresh: "\<forall>j<length row. pointKey (int (0 + j) + ox) (int i + oy) \<notin> set (objectKeys st)"
    using Cons.prems(2) [rule_format, of 0] by simp
  have keys1: "objectKeys (writeRow ox (int i + oy) 0 row st)
                 = objectKeys st @ map (\<lambda>j. pointKey (int j + ox) (int i + oy)) [0 ..< 0 + length row]"
    by (rule objectKeys_writeRow [OF row fresh])
  have later: "\<forall>r<length rows. \<forall>j<length (rows ! r).
      pointKey (int j + ox) (int (Suc i + r) + oy) \<notin> set (objectKeys (writeRow ox (int i + oy) 0 row st))"
  proof (intro allI impI)
    fix r j assume r: "r < length rows" and j: "j < length (rows ! r)"
    have "pointKey (int j + ox) (int (Suc i + r) + oy) \<notin> set (objectKeys st)"
      using Cons.prems(2) [rule_format, of "Suc r" j] r j by simp
    then show "pointKey (int j + ox) (int (Suc i + r) + oy) \<notin> set (objectKeys (writeRow ox (int i + oy) 0 row st))"
      by (auto simp add: keys1 pointKey_inj)
  qed
  have "length (objectKeys (writeRows ox oy (Suc i) rows (writeRow ox (int i + oy) 0 row st)))
          = length (objectKeys (writeRow ox (int i + oy) 0 row st)) + sum_list (map length rows)"
    by (rule Cons.IH [OF rows later])
  then show ?case by (simp add: keys1)
qed

lemma length_mapEachPointRow:
  "length (mapEachPointRow f fr) = nat (py (corner fr) - py (origin fr) + 1)"
  by (simp add: mapEachPointRow_def)

lemma initialData_rows:
  "length initialData = 1001"
  "\<forall>row \<in> set initialData. length row = 1001 \<and> Undefined \<notin> set row"
  by (auto simp add: initialData_def mapEachPointRow_def newDataFrame_def)

lemma sum_list_const:
  "\<forall>x \<in> set xs. f x = c \<Longrightarrow> sum_list (map f xs) = length xs * c"
  by (induction xs) simp_all

lemma store_gridSheetDataFrame:
  "store gridSheetDataFrame = writeRows 0 0 0 initialData []"
proof -
  obtain row0 rest where data: "initialData = row0 # rest"
    using initialData_rows(1) by (cases initialData) auto
  have "row0 \<in> set initialData" by (simp add: data)
  then have len0: "length row0 = 1001" using initialData_rows(2) by blast
  have lenr: "length (row0 # rest) = 1001" using initialData_rows(1) by (simp only: data)
  have np: "newPoint (CoordLoc [0, 0]) = Some (Point 0 0)" by simp
  have cl: "containsLoc newDataFrame (CoordLoc [0, 0])"
    by (simp add: newDataFrame_def inside_def)
  have inb: "containsFrame newDataFrame
      \<lparr>origin = Point 0 0, corner = Point (int (length row0) - 1 + px (Point 0 0)) (int (length (row0 # rest)) - 1 + py (Point 0 0))\<rparr>"
    unfolding len0 lenr by (simp add: containsFrame_def inside_def newDataFrame_def)
  from loadFromArray_checked [OF np cl inb]
  have "store (snd (loadFromArray (row0 # rest) (CoordLoc [0, 0]) newDataFrame))
          = writeRows 0 0 0 (row0 # rest) (store newDataFrame)"
    by (simp add: newDataFrame_def del: writeRows.simps)
  then show ?thesis
    by (simp add: gridSheetDataFrame_def data newDataFrame_def del: writeRows.simps)
qed

lemma gridSheetDataFrame_keys: "length (objectKeys (store gridSheetDataFrame)) = 1002001"
proof -
  have nu: "\<forall>row \<in> set initialData. Undefined \<notin> set row"
    using initialData_rows(2) by blast
  have fresh: "\<forall>r<length initialData. \<forall>j<length (initialData ! r).
      pointKey (int j + 0) (int (0 + r) + 0) \<notin> set (objectKeys ([] :: (string \<times> string jsval) list))"
    by (simp add: objectKeys_def)
  have "length (objectKeys (writeRows 0 0 0 initialData ([] :: (string \<times> string jsval) list)))
          = length (objectKeys ([] :: (string \<times> string jsval) list)) + sum_list (map length initialData)"
    by (rule objectKeys_writeRows_length [OF nu fresh])
  moreover have "sum_list (map length initialData) = length initialData * 1001"
    by (rule sum_list_const) (use initialData_rows(2) in blast)
  ultimately show ?thesis
    by (simp add: store_gridSheetDataFrame initialData_rows(1) objectKeys_def)
qed

text \<open>
  Claim C6 says that for every non-empty store \<^verbatim>\<open>minFrame\<close> is the tightest Frame
  enclosing the present keys and \<^verbatim>\<open>minFrameFromOrigin\<close> that Frame from the declared origin.
  The getter spreads the coordinates, one argument for each key, into \<^verbatim>\<open>Math.min\<close> and
  \<^verbatim>\<open>Math.max\<close>. On a store with more keys than the engine accepts arguments in a call the
  first of these calls throws a RangeError, and so do \<^verbatim>\<open>minFrame\<close> and
  \<^verbatim>\<open>minFrameFromOrigin\<close>: no Frame is returned. Within the bound the code does what the
  claim says (\<open>minFrame_within_bound\<close>, and \<open>minFrame_spec_example\<close> for the example of the
  claim).
\<close>

theorem minFrame_range_error:
  assumes "maxArgs < length (objectKeys (store df))"
  shows "minFrame maxArgs df = Inl RangeError \<and> minFrameFromOrigin maxArgs df = Inl RangeError"
proof -
  have "minFrame maxArgs df = Inl RangeError"
    using assms by (simp add: minFrame_def Let_def mathMin_def keyCoords_def)
  then show ?thesis by (simp add: minFrameFromOrigin_def)
qed

text \<open>
  The DataFrame of the grid sheet, as its constructor leaves it, has 1,002,001 keys; an
  engine that accepts 65536 arguments throws on it.
\<close>

theorem minFrame_range_error_witness:
  "minFrame 65536 gridSheetDataFrame = Inl RangeError \<and>
   minFrameFromOrigin 65536 gridSheetDataFrame = Inl RangeError"
  using minFrame_range_error [of 65536 gridSheetDataFrame]
  by (simp add: gridSheetDataFrame_keys)

text \<open>
  Claim C7 asks that \<^verbatim>\<open>minFrame\<close> of an empty store either fail with an empty-store error
  or return a canonical empty Frame, and not pass on what the min/max primitive gives for
  no arguments. The code has no case for the empty store: \<^verbatim>\<open>Math.min()\<close> is
  \<^verbatim>\<open>Infinity\<close> and \<^verbatim>\<open>Math.max()\<close> is \<^verbatim>\<open>-Infinity\<close>, and these become the coordinates handed to
  the Frame, whatever the bound on the number of arguments.
\<close>

theorem minFrame_empty_store:
  "minFrame maxArgs \<lparr>origin = Point 0 0, corner = Point 2 2, store = ([] :: (string \<times> nat jsval) list),
            callback = False, notified = []\<rparr>
     = Inr \<lparr>origin = Point PosInf PosInf, corner = Point NegInf NegInf\<rparr>"
  by (simp add: minFrame_def keyCoords_def objectKeys_def mathMin_def mathMax_def)

subsection \<open>Completeness of a region\<close>

text \<open>What \<^verbatim>\<open>hasCompleteDataForFrame\<close> computes: it throws for a Frame that is not
  contained, and otherwise tells whether no Point of the Frame reads as \<^verbatim>\<open>undefined\<close> or
  \<^verbatim>\<open>null\<close>.\<close>

lemma completeLoop_inside:
  assumes "\<forall>p \<in> set ps. inside df (px p) (py p)"
  shows "completeLoop df ps =
           Inr (\<forall>p \<in> set ps. \<not> looseEqUndefined (lookup (store df) (pointKey (px p) (py p))))"
  using assms by (induction ps) (auto simp add: getAt_def)

lemma hasCompleteDataForFrame_result:
  "hasCompleteDataForFrame g df =
     (if \<not> containsFrame df g then Inl PassedFrameNotContained
      else Inr (\<forall>p \<in> set (points g). \<not> looseEqUndefined (lookup (store df) (pointKey (px p) (py p)))))"
proof (cases "containsFrame df g")
  case False
  then show ?thesis by (simp add: hasCompleteDataForFrame_def)
next
  case True
  then have io: "inside df (px (origin g)) (py (origin g))" and ic: "inside df (px (corner g)) (py (corner g))"
    by (simp_all add: containsFrame_def)
  have "\<forall>p \<in> set (points g). inside df (px p) (py p)"
    using inside_box [OF io ic] by (auto simp add: points_def)
  from completeLoop_inside [OF this] True show ?thesis
    by (simp add: hasCompleteDataForFrame_def)
qed

text \<open>
  Claim C5 says that \<^verbatim>\<open>hasCompleteDataForFrame\<close> returns true if and only if every Point
  of the Frame has a present entry. The test in the code is the loose comparison
  \<^verbatim>\<open>== undefined\<close>, which \<^verbatim>\<open>null\<close> satisfies as well, while \<^verbatim>\<open>putAt\<close> stores \<^verbatim>\<open>null\<close> as a
  value (it deletes for \<^verbatim>\<open>=== undefined\<close> only). With \<open>1\<close> at \<open>(0, 0)\<close> and \<^verbatim>\<open>null\<close> at
  \<open>(1, 0)\<close> in a DataFrame of bounds \<open>(0,0)-(1,0)\<close>, both keys are present, \<^verbatim>\<open>isFull\<close> is
  true and \<^verbatim>\<open>getAt\<close> returns \<^verbatim>\<open>null\<close>, yet the result over the whole Frame is false.
\<close>

theorem hasCompleteDataForFrame_null_entry:
  "objectKeys (store (snd (putAt (PointLoc (Point 1 0)) (Null :: nat jsval) True
       (snd (putAt (PointLoc (Point 0 0)) (Val 1) True
          \<lparr>origin = Point 0 0, corner = Point 1 0, store = [], callback = False, notified = []\<rparr>)))))
     = [''0,0'', ''1,0''] \<and>
   isFull (snd (putAt (PointLoc (Point 1 0)) (Null :: nat jsval) True
       (snd (putAt (PointLoc (Point 0 0)) (Val 1) True
          \<lparr>origin = Point 0 0, corner = Point 1 0, store = [], callback = False, notified = []\<rparr>)))) \<and>
   getAt (PointLoc (Point 1 0)) (snd (putAt (PointLoc (Point 1 0)) (Null :: nat jsval) True
       (snd (putAt (PointLoc (Point 0 0)) (Val 1) True
          \<lparr>origin = Point 0 0, corner = Point 1 0, store = [], callback = False, notified = []\<rparr>))))
     = Inr Null \<and>
   hasCompleteDataForFrame \<lparr>origin = Point 0 0, corner = Point 1 0\<rparr>
     (snd (putAt (PointLoc (Point 1 0)) (Null :: nat jsval) True
       (snd (putAt (PointLoc (Point 0 0)) (Val 1) True
          \<lparr>origin = Point 0 0, corner = Point 1 0, store = [], callback = False, notified = []\<rparr>))))
     = Inr False"
  by code_simp

end
